theory Spec2Isabelle
  imports Main
begin

section \<open>Python values, exceptions and effects\<close>

text \<open>
  The script \<^verbatim>\<open>galpy_help.py\<close> is modelled function by function. An exception is a
  value of \<open>pyexc\<close>; \<^verbatim>\<open>sys.exit(n)\<close> raises \<open>SystemExit n\<close>. Exceptions that are
  instances of none of the named classes are \<open>OtherException\<close>.
\<close>

datatype pyexc =
    ValueError
  | TypeError
  | AttributeError
  | RuntimeWarning
  | UnboundLocalError
  | SystemExit int
  | OtherException string

text \<open>
  What the program does to the outside world: a call of \<^verbatim>\<open>print\<close> (the text of the
  line, without the final newline) and the file written by \<^verbatim>\<open>savePotTypeArg\<close>
  (name and content).
\<close>

datatype event = Stdout string | FileWrite string string

text \<open>
  A computation gives the events it caused, in order, and either the exception that
  ended it or its value.
\<close>

type_synonym 'a io = "event list \<times> (pyexc + 'a)"

definition io_ret :: "'a \<Rightarrow> 'a io" where
  "io_ret a = ([], Inr a)"

definition io_raise :: "pyexc \<Rightarrow> 'a io" where
  "io_raise e = ([], Inl e)"

definition io_lift :: "pyexc + 'a \<Rightarrow> 'a io" where
  "io_lift r = ([], r)"

definition io_bind :: "'a io \<Rightarrow> ('a \<Rightarrow> 'b io) \<Rightarrow> 'b io" where
  "io_bind m f =
     (case m of
        (out, Inl e) \<Rightarrow> (out, Inl e)
      | (out, Inr a) \<Rightarrow> (case f a of (out', r) \<Rightarrow> (out @ out', r)))"

definition io_then :: "unit io \<Rightarrow> 'b io \<Rightarrow> 'b io" where
  "io_then m k = io_bind m (\<lambda>_. k)"

definition exc_bind :: "pyexc + 'a \<Rightarrow> ('a \<Rightarrow> pyexc + 'b) \<Rightarrow> pyexc + 'b" where
  "exc_bind r f = (case r of Inl e \<Rightarrow> Inl e | Inr a \<Rightarrow> f a)"

subsection \<open>Strings\<close>

text \<open>Python's \<^verbatim>\<open>sep.join(xs)\<close>.\<close>

fun join :: "string \<Rightarrow> string list \<Rightarrow> string" where
  "join sep [] = []"
| "join sep [x] = x"
| "join sep (x # y # ys) = x @ sep @ join sep (y # ys)"

text \<open>\<^verbatim>\<open>print(a, b, ...)\<close> writes its arguments separated by one space.\<close>

definition py_print :: "string list \<Rightarrow> unit io" where
  "py_print args = ([Stdout (join '' '' args)], Inr ())"

text \<open>\<^verbatim>\<open>" " * n\<close>\<close>

definition spaces :: "nat \<Rightarrow> string" where
  "spaces n = replicate n CHR '' ''"

text \<open>
  \<^verbatim>\<open>'{:30}'.format(s)\<close>: a string is left-aligned in a field of 30 characters and
  never truncated.
\<close>

definition name_format :: "string \<Rightarrow> string" where
  "name_format s = s @ replicate (30 - length s) CHR '' ''"

text \<open>Decimal digits of a natural number, and \<^verbatim>\<open>str\<close> / \<^verbatim>\<open>%d\<close> of a Python int.\<close>

definition digit_char :: "nat \<Rightarrow> char" where
  "digit_char n = ''0123456789'' ! n"

function digits :: "nat \<Rightarrow> string" where
  "digits n = (if n < 10 then [digit_char n] else digits (n div 10) @ [digit_char (n mod 10)])"
  by pat_completeness auto
termination
  by (relation "measure (\<lambda>n. n)") auto

definition str_int :: "int \<Rightarrow> string" where
  "str_int i = (if i < 0 then ''-'' @ digits (nat (- i)) else digits (nat i))"

text \<open>\<^verbatim>\<open>sub in s\<close> for strings: \<open>sub\<close> occurs in \<open>s\<close> as a contiguous piece.\<close>

fun starts_with :: "string \<Rightarrow> string \<Rightarrow> bool" where
  "starts_with [] s = True"
| "starts_with (c # cs) [] = False"
| "starts_with (c # cs) (d # ds) = (c = d \<and> starts_with cs ds)"

fun str_contains :: "string \<Rightarrow> string \<Rightarrow> bool" where
  "str_contains sub [] = (sub = [])"
| "str_contains sub (d # ds) = (starts_with sub (d # ds) \<or> str_contains sub ds)"

section \<open>The external library\<close>

text \<open>
  A potential instance as the script sees it: \<^verbatim>\<open>None\<close>, one object of the library,
  or a Python list of such values.
\<close>

datatype 'i pyobj = PyNone | Inst 'i | PyList "'i pyobj list"

text \<open>
  The value of an attribute of \<^verbatim>\<open>galpy.potential\<close>, by the three cases the script
  tells apart: a list, a class (\<^verbatim>\<open>type(x) == type\<close>), anything else.
\<close>

datatype ('c, 'i) attr = AttrList "'i pyobj list" | AttrClass 'c | AttrObject 'i

text \<open>
  The library is not part of the repository: what the script uses of it is a parameter.
  \<open>'c\<close> are class objects, \<open>'i\<close> other objects, \<open>'f\<close> the floating-point numbers
  of the argument arrays. A call that raises returns \<open>Inl\<close>. The record stands for a
  library whose imports (lines 152 to 158) succeeded.

  \<^item> \<open>potential_dir\<close>: \<^verbatim>\<open>dir(galpy.potential)\<close>
  \<^item> \<open>potential_getattribute\<close>: \<^verbatim>\<open>galpy.potential.__getattribute__\<close>
  \<^item> \<open>instantiate c\<close>: the call \<^verbatim>\<open>c()\<close> of a class with default parameters
  \<^item> \<open>type_of\<close>: \<^verbatim>\<open>type(x)\<close> of an object
  \<^item> \<open>type_name\<close>: \<^verbatim>\<open>type(x).__name__\<close>
  \<^item> \<open>dim\<close>: \<^verbatim>\<open>galpy.potential._dim\<close>; \<open>Some n\<close> is the integer \<open>n\<close>, \<open>None\<close> any
    other value (it is compared with 3 only)
  \<^item> \<open>check_c\<close>: the truth value of \<^verbatim>\<open>_check_c(x)\<close>
  \<^item> \<open>parse_pot\<close>: \<^verbatim>\<open>_parse_pot(x)\<close>, giving the count, the type array and the
    argument array
  \<^item> \<open>str_float\<close>: \<^verbatim>\<open>str\<close> of an element of the argument array
  \<^item> \<open>fmt14g\<close>: \<^verbatim>\<open>"%.14g" % x\<close>, an element of the argument array formatted with
    14 significant digits
  \<^item> \<open>doc\<close>, \<open>init_doc\<close>: \<^verbatim>\<open>str(x.__doc__)\<close> and \<^verbatim>\<open>str(x.__init__.__doc__)\<close>
\<close>

record ('c, 'i, 'f) galpy =
  potential_dir :: "string list"
  potential_getattribute :: "string \<Rightarrow> ('c, 'i) attr"
  instantiate :: "'c \<Rightarrow> pyexc + 'i"
  type_of :: "'i \<Rightarrow> 'c"
  type_name :: "'i pyobj \<Rightarrow> string"
  dim :: "'i pyobj \<Rightarrow> pyexc + int option"
  check_c :: "'i pyobj \<Rightarrow> pyexc + bool"
  parse_pot :: "'i pyobj \<Rightarrow> pyexc + (int \<times> int list \<times> 'f list)"
  str_float :: "'f \<Rightarrow> string"
  fmt14g :: "'f \<Rightarrow> string"
  doc :: "'i pyobj \<Rightarrow> string"
  init_doc :: "'i pyobj \<Rightarrow> string"

section \<open>getPotInstance\<close>

text \<open>
  Lines 18 to 33: the attribute is fetched and turned into the pair
  \<open>(pot_module, pot_instance)\<close>. The \<^verbatim>\<open>except\<close> clause catches the four listed
  classes; any other exception of the constructor leaves the function.
\<close>

definition caught :: "pyexc \<Rightarrow> bool" where
  "caught e = (e = ValueError \<or> e = TypeError \<or> e = AttributeError \<or> e = RuntimeWarning)"

definition get_instance :: "('c, 'i, 'f) galpy \<Rightarrow> string \<Rightarrow> pyexc + ('c option \<times> 'i pyobj)" where
  "get_instance g pot_name =
     (case potential_getattribute g pot_name of
        AttrList l \<Rightarrow> Inr (None, PyList l)
      | AttrClass c \<Rightarrow>
          (case instantiate g c of
             Inr i \<Rightarrow> Inr (Some c, Inst i)
           | Inl e \<Rightarrow> if caught e then Inr (None, PyNone) else Inl e)
      | AttrObject i \<Rightarrow> Inr (Some (type_of g i), Inst i))"

text \<open>
  Lines 35 to 41: the two filters. The second \<^verbatim>\<open>if\<close> is not nested in the first and
  has no \<^verbatim>\<open>else\<close>: it probes whatever \<open>pot_instance\<close> holds by then.
\<close>

definition support_filter :: "('c, 'i, 'f) galpy \<Rightarrow> 'i pyobj \<Rightarrow> pyexc + 'i pyobj" where
  "support_filter g pot_instance =
     (if pot_instance \<noteq> PyNone then
        exc_bind (dim g pot_instance) (\<lambda>d.
          let pot_instance1 = (if d \<noteq> Some 3 then PyNone else pot_instance) in
          exc_bind (check_c g pot_instance1) (\<lambda>b.
            Inr (if \<not> b then PyNone else pot_instance1)))
      else Inr pot_instance)"

definition getPotInstance :: "('c, 'i, 'f) galpy \<Rightarrow> string \<Rightarrow> pyexc + ('c option \<times> 'i pyobj)" where
  "getPotInstance g pot_name =
     (if pot_name \<in> set (potential_dir g) \<and> str_contains ''Potential'' pot_name then
        exc_bind (get_instance g pot_name) (\<lambda>(pot_module, pot_instance).
          exc_bind (support_filter g pot_instance) (\<lambda>pot_instance'.
            Inr (pot_module, pot_instance')))
      else Inr (None, PyNone))"

section \<open>savePotTypeArg\<close>



section \<open>printPotTypeArg\<close>

text \<open>
  Lines 110 to 113 and 118 to 119: the items before the last, each followed by a comma,
  by index; then the last item.
\<close>

definition comma_loop :: "('a \<Rightarrow> string) \<Rightarrow> 'a list \<Rightarrow> string" where
  "comma_loop str xs = foldl (\<lambda>s i. s @ str (xs ! i) @ '','') [] [0 ..< length xs - 1]"

definition pot_args_str :: "('f \<Rightarrow> string) \<Rightarrow> 'f list \<Rightarrow> string" where
  "pot_args_str str pot_args =
     (if length pot_args > 0 then comma_loop str pot_args @ str (last pot_args)
      else comma_loop str pot_args)"

text \<open>
  Lines 109 to 120. The variable \<open>type_arg\<close> is assigned only under
  \<^verbatim>\<open>pot_type.size>0\<close>: \<open>None\<close> is the unassigned variable.
\<close>

definition make_type_arg :: "('f \<Rightarrow> string) \<Rightarrow> int list \<Rightarrow> 'f list \<Rightarrow> string option" where
  "make_type_arg str pot_type pot_args =
     (if length pot_type > 0 then
        Some (if length pot_type = 1 then str_int (pot_type ! 0) @ '':'' @ pot_args_str str pot_args
              else comma_loop str_int pot_type @ str_int (last pot_type) @ '':''
                   @ pot_args_str str pot_args)
      else None)"

text \<open>Reading a local variable: an unassigned one raises.\<close>

definition read_var :: "'a option \<Rightarrow> 'a io" where
  "read_var v = (case v of None \<Rightarrow> io_raise UnboundLocalError | Some x \<Rightarrow> io_ret x)"

type_synonym 'f type_arg_result = "string \<times> int \<times> int list \<times> 'f list"

text \<open>
  Lines 107 to 126, the branch \<^verbatim>\<open>elif (pot_instance != None)\<close>. The arguments of
  \<^verbatim>\<open>print\<close> are evaluated before it is called, so an unassigned \<open>type_arg\<close>
  raises before anything is printed on line 125, and after the line is printed on
  line 123.
\<close>

definition print_parsed ::
  "('c, 'i, 'f) galpy \<Rightarrow> string \<Rightarrow> 'i pyobj \<Rightarrow> nat \<Rightarrow> bool \<Rightarrow> 'f type_arg_result io" where
  "print_parsed g pot_name pot_instance print_front_offset print_long_list =
     io_bind (io_lift (parse_pot g pot_instance)) (\<lambda>(npot, pot_type, pot_args).
       let type_arg = make_type_arg (str_float g) pot_type pot_args in
       if length pot_args > 12 \<and> \<not> print_long_list then
         io_then (py_print [spaces print_front_offset, name_format pot_name,
                            ''long argument list, require a configure file''])
           (io_bind (read_var type_arg) (\<lambda>t. io_ret (t, npot, pot_type, pot_args)))
       else
         io_bind (read_var type_arg) (\<lambda>t.
           io_then (py_print [spaces print_front_offset, name_format pot_name, t])
             (io_ret (t, npot, pot_type, pot_args))))"

text \<open>Lines 98 to 103: one round of the loop over the components.\<close>

definition accumulate :: "'f type_arg_result \<Rightarrow> 'f type_arg_result \<Rightarrow> 'f type_arg_result" where
  "accumulate acc sub =
     (case acc of (type_arg, npot, pot_type, pot_arg) \<Rightarrow>
      case sub of (type_arg_sub, n_sub, type_sub, arg_sub) \<Rightarrow>
        ((if type_arg \<noteq> [] then type_arg @ ''|'' else type_arg) @ type_arg_sub,
         npot + n_sub, pot_type @ type_sub, pot_arg @ arg_sub))"

text \<open>
  The function itself; \<open>printPotTypeArg_loop\<close> is the \<^verbatim>\<open>for\<close> loop of lines 96 to
  103 with the four accumulated variables.
\<close>

fun printPotTypeArg ::
    "('c, 'i, 'f) galpy \<Rightarrow> string \<Rightarrow> 'c option \<Rightarrow> 'i pyobj \<Rightarrow> nat \<Rightarrow> bool \<Rightarrow> 'f type_arg_result io"
  and printPotTypeArg_loop ::
    "('c, 'i, 'f) galpy \<Rightarrow> 'i pyobj list \<Rightarrow> nat \<Rightarrow> bool \<Rightarrow> 'f type_arg_result \<Rightarrow> 'f type_arg_result io"
  where
  "printPotTypeArg g pot_name pot_module (PyList pot_instance) print_front_offset print_long_list =
     (if pot_module = None then
        io_then
          (py_print [spaces print_front_offset, name_format pot_name,
                     ''a combination of '' @ str_int (int (length pot_instance)) @ '' potentials:''])
          (io_bind
            (printPotTypeArg_loop g pot_instance print_front_offset print_long_list ([], 0, [], []))
            (\<lambda>(type_arg, npot, pot_type, pot_arg).
               io_then
                 (py_print [spaces (print_front_offset + 4), name_format ''Combination: '', type_arg])
                 (io_ret (type_arg, npot, pot_type, pot_arg))))
      else print_parsed g pot_name (PyList pot_instance) print_front_offset print_long_list)"
| "printPotTypeArg g pot_name pot_module (Inst i) print_front_offset print_long_list =
     print_parsed g pot_name (Inst i) print_front_offset print_long_list"
| "printPotTypeArg g pot_name pot_module PyNone print_front_offset print_long_list =
     io_ret ([], 0, [], [])"
| "printPotTypeArg_loop g [] print_front_offset print_long_list acc = io_ret acc"
| "printPotTypeArg_loop g (pot_sub # rest) print_front_offset print_long_list acc =
     io_bind
       (printPotTypeArg g (type_name g pot_sub) None pot_sub (print_front_offset + 4) print_long_list)
       (\<lambda>sub. printPotTypeArg_loop g rest print_front_offset print_long_list (accumulate acc sub))"

section \<open>Listing the potentials\<close>

definition printPotTitle :: "unit io" where
  "printPotTitle =
     py_print [name_format ''Potential name'',
               '' Options for '' @ [CHR 0x27] @ ''petar --type-arg'' @ [CHR 0x27]
               @ '' with default potential parameters'']"

definition printSpliter :: "unit io" where
  "printSpliter =
     py_print [''----------------------------------------------------------------------------------------------'']"

text \<open>Lines 141 to 144: the loop of \<^verbatim>\<open>listPot\<close> over the names.\<close>

fun listPot_loop :: "('c, 'i, 'f) galpy \<Rightarrow> string list \<Rightarrow> unit io" where
  "listPot_loop g [] = io_ret ()"
| "listPot_loop g (pot_name # rest) =
     io_bind (io_lift (getPotInstance g pot_name)) (\<lambda>(pot_module, pot_instance).
       io_then
         (if pot_instance \<noteq> PyNone then
            io_bind (printPotTypeArg g pot_name pot_module pot_instance 0 False) (\<lambda>_. io_ret ())
          else io_ret ())
         (listPot_loop g rest))"

definition listPot :: "('c, 'i, 'f) galpy \<Rightarrow> unit io" where
  "listPot g = io_then printPotTitle (io_then printSpliter (listPot_loop g (potential_dir g)))"

section \<open>The command line\<close>












section \<open>Notions used to state the properties\<close>

text \<open>
  The format of \<^verbatim>\<open>--type-arg\<close> in the docstring of \<^verbatim>\<open>printPotTypeArg\<close>:
  \<^verbatim>\<open>type1,type2,...:arg1,arg2,...\<close>
\<close>

definition type_arg_format :: "('f \<Rightarrow> string) \<Rightarrow> int list \<Rightarrow> 'f list \<Rightarrow> string" where
  "type_arg_format str pot_type pot_args =
     join '','' (map str_int pot_type) @ '':'' @ join '','' (map str pot_args)"








section \<open>A small library for evaluating the model\<close>

text \<open>
  Classes and objects are named by strings and a float is given by its printed form.
  The names follow the library's; the numbers are only examples. The class
  \<open>MovingObjectPotential\<close> cannot be built without arguments, the razor-thin disk is
  two-dimensional, \<open>evaluatePotentials\<close> is a function, \<open>MWPotential2014\<close> a list
  of three objects and \<open>TwoTriaxialPotentials\<close> a list of two.
\<close>

definition demo_parse :: "string pyobj \<Rightarrow> pyexc + (int \<times> int list \<times> string list)" where
  "demo_parse x =
     (case x of
        Inst n \<Rightarrow>
          if n = ''KeplerPotential'' then Inr (1, [7], [''1.0'', ''3.0''])
          else if n = ''PowerSphericalPotentialwCutoff'' then
            Inr (1, [15], [''0.029994597188218'', ''1.8'', ''0.2375''])
          else if n = ''MiyamotoNagaiPotential'' then
            Inr (1, [5], [''0.75748020193716'', ''0.375'', ''0.035''])
          else if n = ''NFWPotential'' then Inr (1, [9], [''4.852230533528'', ''2.0''])
          else if n = ''DehnenSmoothWrapperPotential'' then
            Inr (2, [-1, 7], [''1.0'', ''0.0'', ''2.0'', ''1.0'', ''3.0''])
          else if n = ''SCFPotential'' then
            Inr (1, [24], [''1.0'', ''1.0'', ''1.0'', ''1.0'', ''1.0'', ''0.0'', ''0.0'', ''0.0'',
                           ''0.0'', ''0.0'', ''0.0'', ''0.0'', ''0.0''])
          else if n = ''TriaxialHernquistPotential'' then
            Inr (1, [13], [''1.0'', ''1.0'', ''1.0'', ''1.0'', ''0.0'', ''0.0'', ''0.0''])
          else if n = ''NullPotential'' then Inr (0, [], [])
          else Inl TypeError
      | _ \<Rightarrow> Inl TypeError)"

definition demo :: "(string, string, string) galpy" where
  "demo =
     \<lparr> potential_dir =
         [''KeplerPotential'', ''MWPotential2014'', ''MovingObjectPotential'',
          ''RazorThinExponentialDiskPotential'', ''SCFPotential'', ''TwoTriaxialPotentials'',
          ''evaluatePotentials'', ''turn_physical_off''],
       potential_getattribute =
         (\<lambda>n. if n = ''MWPotential2014'' then
                AttrList [Inst ''PowerSphericalPotentialwCutoff'', Inst ''MiyamotoNagaiPotential'',
                          Inst ''NFWPotential'']
              else if n = ''TwoTriaxialPotentials'' then
                AttrList [Inst ''TriaxialHernquistPotential'', Inst ''TriaxialHernquistPotential'']
              else if n = ''evaluatePotentials'' \<or> n = ''turn_physical_off'' then AttrObject n
              else AttrClass n),
       instantiate = (\<lambda>c. if c = ''MovingObjectPotential'' then Inl TypeError else Inr c),
       type_of = (\<lambda>i. if i = ''evaluatePotentials'' \<or> i = ''turn_physical_off'' then ''function''
                       else i),
       type_name = (\<lambda>x. case x of Inst n \<Rightarrow> n | PyList l \<Rightarrow> ''list'' | PyNone \<Rightarrow> ''NoneType''),
       dim =
         (\<lambda>x. case x of
                Inst n \<Rightarrow>
                  if n = ''RazorThinExponentialDiskPotential'' then Inr (Some 2)
                  else if n = ''evaluatePotentials'' then Inr None
                  else Inr (Some 3)
              | PyList l \<Rightarrow> Inr (Some 3)
              | PyNone \<Rightarrow> Inl AttributeError),
       check_c = (\<lambda>x. case x of PyNone \<Rightarrow> Inr False | _ \<Rightarrow> Inr True),
       parse_pot = demo_parse,
       str_float = (\<lambda>s. s),
       fmt14g = (\<lambda>s. s),
       doc = (\<lambda>x. ''doc''),
       init_doc = (\<lambda>x. ''init doc'') \<rparr>"

text \<open>The same library with a class whose constructor raises \<^verbatim>\<open>NotImplementedError\<close>.\<close>

definition demo_raising :: "(string, string, string) galpy" where
  "demo_raising =
     demo \<lparr> potential_dir := ''EllipsoidalPotential'' # potential_dir demo,
            instantiate := (\<lambda>c. if c = ''EllipsoidalPotential''
                                 then Inl (OtherException ''NotImplementedError'')
                                 else instantiate demo c) \<rparr>"

text \<open>The same library with a native-support probe that raises on \<^verbatim>\<open>None\<close>.\<close>

definition demo_strict :: "(string, string, string) galpy" where
  "demo_strict =
     demo \<lparr> check_c := (\<lambda>x. case x of PyNone \<Rightarrow> Inl AttributeError | _ \<Rightarrow> Inr True) \<rparr>"

declare digits.simps [simp del]

section \<open>Sequencing and string facts\<close>

lemma io_bind_Inr: "io_bind (out, Inr a) f = (out @ fst (f a), snd (f a))"
  by (simp add: io_bind_def split: prod.splits)

lemma io_bind_Inl: "io_bind (out, Inl e) f = (out, Inl e)"
  by (simp add: io_bind_def)

lemma io_then_Inr: "io_then (out, Inr u) k = (out @ fst k, snd k)"
  by (simp add: io_then_def io_bind_Inr)

lemma io_then_Inl: "io_then (out, Inl e) k = (out, Inl e)"
  by (simp add: io_then_def io_bind_Inl)

lemma foldl_index_take:
  "n \<le> length xs \<Longrightarrow>
   foldl (\<lambda>s i. s @ f (xs ! i) @ sep) acc [0 ..< n] = acc @ concat (map (\<lambda>x. f x @ sep) (take n xs))"
proof (induction n)
  case 0
  then show ?case by simp
next
  case (Suc n)
  then have "n < length xs" by simp
  then have "take (Suc n) xs = take n xs @ [xs ! n]"
    by (simp add: take_Suc_conv_app_nth)
  with Suc show ?case by simp
qed

lemma comma_loop_butlast: "comma_loop f xs = concat (map (\<lambda>x. f x @ '','') (butlast xs))"
  unfolding comma_loop_def
  by (simp add: foldl_index_take butlast_conv_take)

lemma join_butlast_last:
  "xs \<noteq> [] \<Longrightarrow> concat (map (\<lambda>x. f x @ sep) (butlast xs)) @ f (last xs) = join sep (map f xs)"
proof (induction xs)
  case Nil
  then show ?case by simp
next
  case (Cons x xs)
  then show ?case by (cases xs) simp_all
qed

lemma pot_args_str_join: "pot_args_str f xs = join '','' (map f xs)"
  by (cases "xs = []") (simp_all add: pot_args_str_def comma_loop_butlast join_butlast_last)

lemma comma_loop_last:
  "xs \<noteq> [] \<Longrightarrow> comma_loop f xs @ f (last xs) @ rest = join '','' (map f xs) @ rest"
  using join_butlast_last [of xs f "'',''"] by (simp add: comma_loop_butlast)

lemma make_type_arg_join:
  "make_type_arg f pot_type pot_args =
     (if pot_type = [] then None
      else Some (join '','' (map str_int pot_type) @ '':'' @ join '','' (map f pot_args)))"
proof (cases "pot_type = []")
  case True
  then show ?thesis by (simp add: make_type_arg_def)
next
  case False
  show ?thesis
  proof (cases "length pot_type = 1")
    case True
    then obtain t where "pot_type = [t]"
      by (cases pot_type) simp_all
    then show ?thesis by (simp add: make_type_arg_def pot_args_str_join)
  next
    case many: False
    from False many show ?thesis
      by (simp add: make_type_arg_def pot_args_str_join comma_loop_last)
  qed
qed

lemma print_parsed_ok:
  assumes "parse_pot g x = Inr (npot, pot_type, pot_args)" and "pot_type \<noteq> []"
  shows "print_parsed g pot_name x off long =
     ([Stdout (join '' '' [spaces off, name_format pot_name,
         if 12 < length pot_args \<and> \<not> long then ''long argument list, require a configure file''
         else type_arg_format (str_float g) pot_type pot_args])],
      Inr (type_arg_format (str_float g) pot_type pot_args, npot, pot_type, pot_args))"
  using assms
  by (simp add: print_parsed_def io_lift_def io_bind_Inr io_then_Inr make_type_arg_join
      read_var_def io_ret_def py_print_def type_arg_format_def Let_def del: join.simps)

lemma print_parsed_unbound:
  assumes "parse_pot g x = Inr (npot, [], pot_args)"
  shows "print_parsed g pot_name x off long =
     (if 12 < length pot_args \<and> \<not> long
      then [Stdout (join '' '' [spaces off, name_format pot_name,
              ''long argument list, require a configure file''])]
      else [],
      Inl UnboundLocalError)"
  using assms
  by (simp add: print_parsed_def io_lift_def io_bind_Inr io_then_Inr io_bind_Inl make_type_arg_join
      read_var_def io_ret_def io_raise_def py_print_def Let_def del: join.simps)

lemma print_parsed_raises:
  assumes "parse_pot g x = Inl e"
  shows "print_parsed g pot_name x off long = ([], Inl e)"
  using assms by (simp add: print_parsed_def io_lift_def io_bind_Inl)

section \<open>The encoding of one potential\<close>

text \<open>
  Claim C3. For a potential instance that is not a list and whose parse gives exactly
  one type code \<open>t\<close> and the arguments \<open>a1 .. ak\<close>, the encoding returned by
  \<^verbatim>\<open>printPotTypeArg\<close> is \<open>str(t)\<close>, a colon, and the arguments joined with commas;
  when the parse gives several type codes, it is the type codes joined with commas, a
  colon, and the arguments joined with commas. The count and the two arrays are returned
  as parsed.
\<close>

theorem printPotTypeArg_encoding:
  assumes "parse_pot g (Inst i) = Inr (npot, pot_type, pot_args)"
  shows "(pot_type = [t] \<longrightarrow>
            snd (printPotTypeArg g pot_name pot_module (Inst i) off long) =
              Inr (str_int t @ '':'' @ join '','' (map (str_float g) pot_args),
                   npot, pot_type, pot_args))
       \<and> (1 < length pot_type \<longrightarrow>
            snd (printPotTypeArg g pot_name pot_module (Inst i) off long) =
              Inr (join '','' (map str_int pot_type) @ '':'' @ join '','' (map (str_float g) pot_args),
                   npot, pot_type, pot_args))"
proof (intro conjI impI)
  assume one: "pot_type = [t]"
  then have "pot_type \<noteq> []" by simp
  from print_parsed_ok [OF assms this] one
  show "snd (printPotTypeArg g pot_name pot_module (Inst i) off long) =
          Inr (str_int t @ '':'' @ join '','' (map (str_float g) pot_args), npot, pot_type, pot_args)"
    by (simp add: type_arg_format_def)
next
  assume "1 < length pot_type"
  then have "pot_type \<noteq> []" by auto
  from print_parsed_ok [OF assms this]
  show "snd (printPotTypeArg g pot_name pot_module (Inst i) off long) =
          Inr (join '','' (map str_int pot_type) @ '':'' @ join '','' (map (str_float g) pot_args),
               npot, pot_type, pot_args)"
    by (simp add: type_arg_format_def)
qed

theorem printPotTypeArg_encoding_witness:
  "parse_pot demo (Inst ''KeplerPotential'') = Inr (1, [7], [''1.0'', ''3.0''])
   \<and> snd (printPotTypeArg demo ''KeplerPotential'' (Some ''KeplerPotential'')
             (Inst ''KeplerPotential'') 0 False)
       = Inr (''7:1.0,3.0'', 1, [7], [''1.0'', ''3.0''])
   \<and> parse_pot demo (Inst ''DehnenSmoothWrapperPotential'')
       = Inr (2, [-1, 7], [''1.0'', ''0.0'', ''2.0'', ''1.0'', ''3.0''])
   \<and> snd (printPotTypeArg demo ''DehnenSmoothWrapperPotential'' (Some ''DehnenSmoothWrapperPotential'')
             (Inst ''DehnenSmoothWrapperPotential'') 0 False)
       = Inr (''-1,7:1.0,0.0,2.0,1.0,3.0'', 2, [-1, 7], [''1.0'', ''0.0'', ''2.0'', ''1.0'', ''3.0''])"
proof -
  have k: "parse_pot demo (Inst ''KeplerPotential'') = Inr (1, [7], [''1.0'', ''3.0''])"
    by (simp add: demo_def demo_parse_def)
  have d: "parse_pot demo (Inst ''DehnenSmoothWrapperPotential'')
             = Inr (2, [-1, 7], [''1.0'', ''0.0'', ''2.0'', ''1.0'', ''3.0''])"
    by (simp add: demo_def demo_parse_def)
  have s [simp]: "str_float demo = (\<lambda>s. s)" by (simp add: demo_def)
  have i: "str_int 7 = ''7''" "str_int (-1) = ''-1''"
    by (simp_all add: str_int_def digits.simps digit_char_def)
  from printPotTypeArg_encoding [OF k, of 7 "''KeplerPotential''" "Some ''KeplerPotential''" 0 False]
  have 1: "snd (printPotTypeArg demo ''KeplerPotential'' (Some ''KeplerPotential'')
             (Inst ''KeplerPotential'') 0 False) = Inr (''7:1.0,3.0'', 1, [7], [''1.0'', ''3.0''])"
    by (simp add: i)
  from printPotTypeArg_encoding [OF d, of 0 "''DehnenSmoothWrapperPotential''"
      "Some ''DehnenSmoothWrapperPotential''" 0 False]
  have 2: "snd (printPotTypeArg demo ''DehnenSmoothWrapperPotential'' (Some ''DehnenSmoothWrapperPotential'')
             (Inst ''DehnenSmoothWrapperPotential'') 0 False)
       = Inr (''-1,7:1.0,0.0,2.0,1.0,3.0'', 2, [-1, 7], [''1.0'', ''0.0'', ''2.0'', ''1.0'', ''3.0''])"
    by (simp add: i)
  from k d 1 2 show ?thesis by blast
qed

text \<open>
  Claim C8. \<^verbatim>\<open>printPotTypeArg\<close> on an instance that is not a list returns only when
  the parser gives at least one type code. With an empty type array the variable
  \<open>type_arg\<close> is read before it is assigned: the call ends in
  \<^verbatim>\<open>UnboundLocalError\<close>, with nothing printed when the argument array has at most
  12 entries. With a type code the call returns.
\<close>

theorem printPotTypeArg_needs_type_code:
  assumes "parse_pot g (Inst i) = Inr (npot, pot_type, pot_args)"
  shows "(pot_type = [] \<and> length pot_args \<le> 12 \<longrightarrow>
            printPotTypeArg g pot_name pot_module (Inst i) off long = ([], Inl UnboundLocalError))
       \<and> (pot_type = [] \<longrightarrow>
            snd (printPotTypeArg g pot_name pot_module (Inst i) off long) = Inl UnboundLocalError)
       \<and> (pot_type \<noteq> [] \<longrightarrow>
            (\<exists>r. snd (printPotTypeArg g pot_name pot_module (Inst i) off long) = Inr r))"
proof (intro conjI impI)
  assume "pot_type = [] \<and> length pot_args \<le> 12"
  with assms print_parsed_unbound [of g "Inst i" npot pot_args pot_name off long]
  show "printPotTypeArg g pot_name pot_module (Inst i) off long = ([], Inl UnboundLocalError)"
    by simp
next
  assume "pot_type = []"
  with assms print_parsed_unbound [of g "Inst i" npot pot_args pot_name off long]
  show "snd (printPotTypeArg g pot_name pot_module (Inst i) off long) = Inl UnboundLocalError"
    by simp
next
  assume "pot_type \<noteq> []"
  from print_parsed_ok [OF assms this, of pot_name off long]
  show "\<exists>r. snd (printPotTypeArg g pot_name pot_module (Inst i) off long) = Inr r"
    by simp
qed

theorem printPotTypeArg_needs_type_code_witness:
  "parse_pot demo (Inst ''NullPotential'') = Inr (0, [], [])
   \<and> printPotTypeArg demo ''NullPotential'' (Some ''NullPotential'') (Inst ''NullPotential'') 0 False
       = ([], Inl UnboundLocalError)
   \<and> parse_pot demo (Inst ''KeplerPotential'') = Inr (1, [7], [''1.0'', ''3.0''])
   \<and> (\<exists>r. snd (printPotTypeArg demo ''KeplerPotential'' (Some ''KeplerPotential'')
                 (Inst ''KeplerPotential'') 0 False) = Inr r)"
proof -
  have n: "parse_pot demo (Inst ''NullPotential'') = Inr (0, [], [])"
    by (simp add: demo_def demo_parse_def)
  have k: "parse_pot demo (Inst ''KeplerPotential'') = Inr (1, [7], [''1.0'', ''3.0''])"
    by (simp add: demo_def demo_parse_def)
  from printPotTypeArg_needs_type_code [OF n, of "''NullPotential''" "Some ''NullPotential''" 0 False]
  have 1: "printPotTypeArg demo ''NullPotential'' (Some ''NullPotential'') (Inst ''NullPotential'') 0 False
       = ([], Inl UnboundLocalError)"
    by simp
  from printPotTypeArg_needs_type_code [OF k, of "''KeplerPotential''" "Some ''KeplerPotential''" 0 False]
  have 2: "\<exists>r. snd (printPotTypeArg demo ''KeplerPotential'' (Some ''KeplerPotential'')
                 (Inst ''KeplerPotential'') 0 False) = Inr r"
    by simp
  from n k 1 2 show ?thesis by blast
qed

section \<open>The filters of getPotInstance\<close>

lemma exc_bind_Inr: "exc_bind (Inr a) f = f a"
  by (simp add: exc_bind_def)

lemma exc_bind_Inl: "exc_bind (Inl e) f = Inl e"
  by (simp add: exc_bind_def)

lemma getPotInstance_unfold:
  assumes "pot_name \<in> set (potential_dir g)" and "str_contains ''Potential'' pot_name"
    and "get_instance g pot_name = Inr (m, x)"
  shows "getPotInstance g pot_name =
           (case support_filter g x of Inl e \<Rightarrow> Inl e | Inr y \<Rightarrow> Inr (m, y))"
  using assms by (simp add: getPotInstance_def exc_bind_def split: sum.splits)

lemma support_filter_result:
  assumes "support_filter g x = Inr y" and "y \<noteq> PyNone"
  shows "y = x \<and> dim g x = Inr (Some 3) \<and> check_c g x = Inr True"
  using assms
  by (auto simp: support_filter_def exc_bind_def Let_def split: if_splits sum.splits)

lemma getPotInstance_cases:
  assumes "getPotInstance g pot_name = Inr (m, y)" and "y \<noteq> PyNone"
  shows "\<exists>x. support_filter g x = Inr y"
  using assms
  by (auto simp: getPotInstance_def exc_bind_def split: if_splits sum.splits prod.splits)

text \<open>
  Claim C4. For every name, \<^verbatim>\<open>getPotInstance\<close> returns a \<^verbatim>\<open>None\<close> instance
  whenever the dimensionality probe gives a value other than 3 or the native-support
  probe gives false: an instance that is returned has dimension 3 and native support,
  and when the probes answer and one of them rejects, the pair with the \<^verbatim>\<open>None\<close>
  instance is returned.
\<close>

theorem getPotInstance_filters:
  "(\<forall>m y. getPotInstance g pot_name = Inr (m, y) \<and> y \<noteq> PyNone \<longrightarrow>
       dim g y = Inr (Some 3) \<and> check_c g y = Inr True)
   \<and> (\<forall>m x d b.
         pot_name \<in> set (potential_dir g) \<and> str_contains ''Potential'' pot_name
         \<and> get_instance g pot_name = Inr (m, x) \<and> x \<noteq> PyNone
         \<and> dim g x = Inr d \<and> check_c g (if d \<noteq> Some 3 then PyNone else x) = Inr b
         \<and> (d \<noteq> Some 3 \<or> \<not> b)
       \<longrightarrow> getPotInstance g pot_name = Inr (m, PyNone))"
proof (intro conjI allI impI)
  fix m y
  assume h: "getPotInstance g pot_name = Inr (m, y) \<and> y \<noteq> PyNone"
  then obtain x where "support_filter g x = Inr y"
    using getPotInstance_cases by blast
  with h show "dim g y = Inr (Some 3)" and "check_c g y = Inr True"
    using support_filter_result by blast+
next
  fix m x d b
  assume h: "pot_name \<in> set (potential_dir g) \<and> str_contains ''Potential'' pot_name
         \<and> get_instance g pot_name = Inr (m, x) \<and> x \<noteq> PyNone
         \<and> dim g x = Inr d \<and> check_c g (if d \<noteq> Some 3 then PyNone else x) = Inr b
         \<and> (d \<noteq> Some 3 \<or> \<not> b)"
  then have "support_filter g x = Inr PyNone"
    by (auto simp: support_filter_def exc_bind_def Let_def)
  with h show "getPotInstance g pot_name = Inr (m, PyNone)"
    by (simp add: getPotInstance_unfold)
qed

lemma contains_Potential_Razor: "str_contains ''Potential'' ''RazorThinExponentialDiskPotential''"
  by simp

theorem getPotInstance_filters_witness:
  "getPotInstance demo ''KeplerPotential'' = Inr (Some ''KeplerPotential'', Inst ''KeplerPotential'')
   \<and> dim demo (Inst ''KeplerPotential'') = Inr (Some 3)
   \<and> check_c demo (Inst ''KeplerPotential'') = Inr True
   \<and> get_instance demo ''RazorThinExponentialDiskPotential''
       = Inr (Some ''RazorThinExponentialDiskPotential'', Inst ''RazorThinExponentialDiskPotential'')
   \<and> dim demo (Inst ''RazorThinExponentialDiskPotential'') = Inr (Some 2)
   \<and> getPotInstance demo ''RazorThinExponentialDiskPotential''
       = Inr (Some ''RazorThinExponentialDiskPotential'', PyNone)"
proof -
  have k: "getPotInstance demo ''KeplerPotential'' = Inr (Some ''KeplerPotential'', Inst ''KeplerPotential'')"
    by (simp add: getPotInstance_def get_instance_def support_filter_def exc_bind_def demo_def)
  from getPotInstance_filters [of demo "''KeplerPotential''"] k
  have 1: "dim demo (Inst ''KeplerPotential'') = Inr (Some 3)
          \<and> check_c demo (Inst ''KeplerPotential'') = Inr True"
    by blast
  have r: "''RazorThinExponentialDiskPotential'' \<in> set (potential_dir demo)
      \<and> str_contains ''Potential'' ''RazorThinExponentialDiskPotential''
      \<and> get_instance demo ''RazorThinExponentialDiskPotential''
           = Inr (Some ''RazorThinExponentialDiskPotential'', Inst ''RazorThinExponentialDiskPotential'')
      \<and> Inst ''RazorThinExponentialDiskPotential'' \<noteq> (PyNone :: string pyobj)
      \<and> dim demo (Inst ''RazorThinExponentialDiskPotential'') = Inr (Some 2)
      \<and> check_c demo (if Some (2::int) \<noteq> Some 3 then PyNone else Inst ''RazorThinExponentialDiskPotential'')
           = Inr False
      \<and> (Some (2::int) \<noteq> Some 3 \<or> \<not> False)"
    by (simp add: get_instance_def demo_def)
  from getPotInstance_filters [of demo "''RazorThinExponentialDiskPotential''"] r
  have 2: "getPotInstance demo ''RazorThinExponentialDiskPotential''
       = Inr (Some ''RazorThinExponentialDiskPotential'', PyNone)"
    by blast
  from k 1 2 r show ?thesis by blast
qed

text \<open>
  Claim C9. The two filters of \<^verbatim>\<open>getPotInstance\<close> are not short-circuited. When the
  dimensionality probe rejects an instance, the native-support probe is still called,
  on \<^verbatim>\<open>None\<close>: the outcome of \<^verbatim>\<open>getPotInstance\<close> is then decided by that call, and
  the function returns exactly when the probe is defined on \<^verbatim>\<open>None\<close>.
\<close>

theorem getPotInstance_probes_None:
  assumes "pot_name \<in> set (potential_dir g)" and "str_contains ''Potential'' pot_name"
    and "get_instance g pot_name = Inr (m, x)" and "x \<noteq> PyNone"
    and "dim g x = Inr d" and "d \<noteq> Some 3"
  shows "getPotInstance g pot_name =
           (case check_c g PyNone of Inl e \<Rightarrow> Inl e | Inr b \<Rightarrow> Inr (m, PyNone))
         \<and> ((\<exists>r. getPotInstance g pot_name = Inr r) \<longleftrightarrow> (\<exists>b. check_c g PyNone = Inr b))"
proof -
  from assms have "support_filter g x =
      (case check_c g PyNone of Inl e \<Rightarrow> Inl e | Inr b \<Rightarrow> Inr PyNone)"
    by (simp add: support_filter_def exc_bind_def Let_def split: sum.splits)
  with assms have 1: "getPotInstance g pot_name =
           (case check_c g PyNone of Inl e \<Rightarrow> Inl e | Inr b \<Rightarrow> Inr (m, PyNone))"
    by (simp add: getPotInstance_unfold split: sum.splits)
  then have "(\<exists>r. getPotInstance g pot_name = Inr r) \<longleftrightarrow> (\<exists>b. check_c g PyNone = Inr b)"
    by (cases "check_c g PyNone") simp_all
  with 1 show ?thesis by blast
qed

theorem getPotInstance_probes_None_witness:
  "''RazorThinExponentialDiskPotential'' \<in> set (potential_dir demo_strict)
   \<and> str_contains ''Potential'' ''RazorThinExponentialDiskPotential''
   \<and> get_instance demo_strict ''RazorThinExponentialDiskPotential''
       = Inr (Some ''RazorThinExponentialDiskPotential'', Inst ''RazorThinExponentialDiskPotential'')
   \<and> dim demo_strict (Inst ''RazorThinExponentialDiskPotential'') = Inr (Some 2)
   \<and> check_c demo_strict PyNone = Inl AttributeError
   \<and> getPotInstance demo_strict ''RazorThinExponentialDiskPotential'' = Inl AttributeError
   \<and> check_c demo PyNone = Inr False
   \<and> getPotInstance demo ''RazorThinExponentialDiskPotential''
       = Inr (Some ''RazorThinExponentialDiskPotential'', PyNone)"
proof -
  have a: "''RazorThinExponentialDiskPotential'' \<in> set (potential_dir demo_strict)"
    and a': "''RazorThinExponentialDiskPotential'' \<in> set (potential_dir demo)"
    by (simp_all add: demo_strict_def demo_def)
  have b: "get_instance demo_strict ''RazorThinExponentialDiskPotential''
       = Inr (Some ''RazorThinExponentialDiskPotential'', Inst ''RazorThinExponentialDiskPotential'')"
    and b': "get_instance demo ''RazorThinExponentialDiskPotential''
       = Inr (Some ''RazorThinExponentialDiskPotential'', Inst ''RazorThinExponentialDiskPotential'')"
    by (simp_all add: get_instance_def demo_strict_def demo_def)
  have c: "dim demo_strict (Inst ''RazorThinExponentialDiskPotential'') = Inr (Some 2)"
    and c': "dim demo (Inst ''RazorThinExponentialDiskPotential'') = Inr (Some 2)"
    by (simp_all add: demo_strict_def demo_def)
  have d: "check_c demo_strict PyNone = Inl AttributeError"
    and d': "check_c demo PyNone = Inr False"
    by (simp_all add: demo_strict_def demo_def)
  have n: "Inst ''RazorThinExponentialDiskPotential'' \<noteq> (PyNone :: string pyobj)"
    and t: "Some (2::int) \<noteq> Some 3"
    by simp_all
  from getPotInstance_probes_None [OF a contains_Potential_Razor b n c t] d
  have 1: "getPotInstance demo_strict ''RazorThinExponentialDiskPotential'' = Inl AttributeError"
    by simp
  from getPotInstance_probes_None [OF a' contains_Potential_Razor b' n c' t] d'
  have 2: "getPotInstance demo ''RazorThinExponentialDiskPotential''
       = Inr (Some ''RazorThinExponentialDiskPotential'', PyNone)"
    by simp
  from a contains_Potential_Razor b c d 1 d' 2 show ?thesis by blast
qed

section \<open>Failures of a constructor\<close>

lemma io_bind_lift_Inr: "io_bind (io_lift (Inr a)) f = f a"
  by (simp add: io_bind_def io_lift_def split: prod.splits)

lemma io_bind_lift_Inl: "io_bind (io_lift (Inl e)) f = ([], Inl e)"
  by (simp add: io_bind_def io_lift_def)

lemma io_then_ret: "io_then (io_ret ()) k = k"
  by (simp add: io_then_def io_bind_def io_ret_def split: prod.splits)

lemma listPot_loop_raises:
  "getPotInstance g pot_name = Inl e \<Longrightarrow> listPot_loop g (pot_name # rest) = ([], Inl e)"
  by (simp add: io_bind_lift_Inl)


text \<open>
  Claim C7, as amended. For a name bound to a class whose call with default parameters
  raises: when the exception is a \<^verbatim>\<open>ValueError\<close>, \<^verbatim>\<open>TypeError\<close>,
  \<^verbatim>\<open>AttributeError\<close> or \<^verbatim>\<open>RuntimeWarning\<close>, it is caught, both returned values are
  \<^verbatim>\<open>None\<close>, and the scan goes on with the remaining names as if the name were not
  there; any other exception leaves \<^verbatim>\<open>getPotInstance\<close> and ends the scan.
\<close>

theorem getPotInstance_constructor_failure:
  assumes "pot_name \<in> set (potential_dir g)" and "str_contains ''Potential'' pot_name"
    and "potential_getattribute g pot_name = AttrClass c" and "instantiate g c = Inl e"
  shows "(caught e \<longrightarrow>
            getPotInstance g pot_name = Inr (None, PyNone)
            \<and> listPot_loop g (pot_name # rest) = listPot_loop g rest)
       \<and> (\<not> caught e \<longrightarrow>
            getPotInstance g pot_name = Inl e
            \<and> listPot_loop g (pot_name # rest) = ([], Inl e))"
proof (intro conjI impI)
  assume c: "caught e"
  with assms have "get_instance g pot_name = Inr (None, PyNone)"
    by (simp add: get_instance_def)
  with assms show g: "getPotInstance g pot_name = Inr (None, PyNone)"
    by (simp add: getPotInstance_unfold support_filter_def)
  then show "listPot_loop g (pot_name # rest) = listPot_loop g rest"
    by (simp add: io_bind_lift_Inr io_then_ret)
next
  assume c: "\<not> caught e"
  with assms have "get_instance g pot_name = Inl e"
    by (simp add: get_instance_def)
  with assms show g: "getPotInstance g pot_name = Inl e"
    by (simp add: getPotInstance_def exc_bind_Inl)
  then show "listPot_loop g (pot_name # rest) = ([], Inl e)"
    by (simp add: io_bind_lift_Inl)
qed

theorem getPotInstance_constructor_failure_witness:
  "''MovingObjectPotential'' \<in> set (potential_dir demo)
   \<and> str_contains ''Potential'' ''MovingObjectPotential''
   \<and> potential_getattribute demo ''MovingObjectPotential'' = AttrClass ''MovingObjectPotential''
   \<and> instantiate demo ''MovingObjectPotential'' = Inl TypeError
   \<and> caught TypeError
   \<and> getPotInstance demo ''MovingObjectPotential'' = Inr (None, PyNone)
   \<and> listPot_loop demo [''MovingObjectPotential'', ''KeplerPotential'']
       = listPot_loop demo [''KeplerPotential'']
   \<and> ''EllipsoidalPotential'' \<in> set (potential_dir demo_raising)
   \<and> str_contains ''Potential'' ''EllipsoidalPotential''
   \<and> potential_getattribute demo_raising ''EllipsoidalPotential'' = AttrClass ''EllipsoidalPotential''
   \<and> instantiate demo_raising ''EllipsoidalPotential'' = Inl (OtherException ''NotImplementedError'')
   \<and> \<not> caught (OtherException ''NotImplementedError'')
   \<and> listPot_loop demo_raising [''EllipsoidalPotential'', ''KeplerPotential'']
       = ([], Inl (OtherException ''NotImplementedError''))"
proof -
  have a: "''MovingObjectPotential'' \<in> set (potential_dir demo)"
    and b: "str_contains ''Potential'' ''MovingObjectPotential''"
    and c: "potential_getattribute demo ''MovingObjectPotential'' = AttrClass ''MovingObjectPotential''"
    and d: "instantiate demo ''MovingObjectPotential'' = Inl TypeError"
    and e: "caught TypeError"
    by (simp_all add: demo_def caught_def)
  have a': "''EllipsoidalPotential'' \<in> set (potential_dir demo_raising)"
    and b': "str_contains ''Potential'' ''EllipsoidalPotential''"
    and c': "potential_getattribute demo_raising ''EllipsoidalPotential'' = AttrClass ''EllipsoidalPotential''"
    and d': "instantiate demo_raising ''EllipsoidalPotential'' = Inl (OtherException ''NotImplementedError'')"
    and e': "\<not> caught (OtherException ''NotImplementedError'')"
    by (simp_all add: demo_raising_def demo_def caught_def)
  from getPotInstance_constructor_failure [OF a b c d, of "[''KeplerPotential'']"] e
  have 1: "getPotInstance demo ''MovingObjectPotential'' = Inr (None, PyNone)
           \<and> listPot_loop demo [''MovingObjectPotential'', ''KeplerPotential'']
              = listPot_loop demo [''KeplerPotential'']"
    by blast
  from getPotInstance_constructor_failure [OF a' b' c' d', of "[''KeplerPotential'']"] e'
  have 2: "listPot_loop demo_raising [''EllipsoidalPotential'', ''KeplerPotential'']
       = ([], Inl (OtherException ''NotImplementedError''))"
    by blast
  from a b c d e 1 a' b' c' d' e' 2 show ?thesis by blast
qed

text \<open>
  Claim C7 as stated fails: a constructor that raises \<^verbatim>\<open>NotImplementedError\<close> is not
  caught, and the scan ends after the title and the splitter, before any other name is
  looked at.
\<close>

theorem constructor_failure_aborts_scan:
  "getPotInstance demo_raising ''EllipsoidalPotential'' = Inl (OtherException ''NotImplementedError'')
   \<and> getPotInstance demo_raising ''EllipsoidalPotential'' \<noteq> Inr (None, PyNone)
   \<and> potential_dir demo_raising
       = [''EllipsoidalPotential'', ''KeplerPotential'', ''MWPotential2014'', ''MovingObjectPotential'',
          ''RazorThinExponentialDiskPotential'', ''SCFPotential'', ''TwoTriaxialPotentials'',
          ''evaluatePotentials'', ''turn_physical_off'']
   \<and> listPot demo_raising
       = (fst printPotTitle @ fst printSpliter, Inl (OtherException ''NotImplementedError''))"
proof -
  have g: "getPotInstance demo_raising ''EllipsoidalPotential'' = Inl (OtherException ''NotImplementedError'')"
    by (simp add: getPotInstance_def get_instance_def exc_bind_def caught_def demo_raising_def demo_def)
  have d: "potential_dir demo_raising
       = [''EllipsoidalPotential'', ''KeplerPotential'', ''MWPotential2014'', ''MovingObjectPotential'',
          ''RazorThinExponentialDiskPotential'', ''SCFPotential'', ''TwoTriaxialPotentials'',
          ''evaluatePotentials'', ''turn_physical_off'']"
    by (simp add: demo_raising_def demo_def)
  have l: "listPot demo_raising
       = (fst printPotTitle @ fst printSpliter, Inl (OtherException ''NotImplementedError''))"
    unfolding listPot_def d listPot_loop_raises [OF g]
    by (simp add: io_then_def io_bind_def printPotTitle_def printSpliter_def py_print_def)
  from g d l show ?thesis by simp
qed

section \<open>Combinations of potentials\<close>

lemma printPotTypeArg_Inst_nonempty:
  assumes "snd (printPotTypeArg g pot_name pot_module (Inst i) off long) = Inr r"
  shows "fst r \<noteq> []"
proof (cases "parse_pot g (Inst i)")
  case (Inl e)
  with assms show ?thesis by (simp add: print_parsed_raises)
next
  case (Inr p)
  obtain npot pot_type pot_args where p: "p = (npot, pot_type, pot_args)"
    by (cases p) auto
  show ?thesis
  proof (cases "pot_type = []")
    case True
    with assms Inr p show ?thesis by (simp add: print_parsed_unbound)
  next
    case False
    from print_parsed_ok [of g "Inst i" npot pot_type pot_args pot_name off long] Inr p False assms
    show ?thesis by (auto simp: type_arg_format_def)
  qed
qed

text \<open>The loop over the components, when every call returns.\<close>

lemma printPotTypeArg_loop_returns:
  assumes "list_all2 (\<lambda>c r. snd (printPotTypeArg g (type_name g c) None c (off + 4) long) = Inr r) comps rs"
  shows "snd (printPotTypeArg_loop g comps off long acc) = Inr (foldl accumulate acc rs)"
  using assms
proof (induction comps rs arbitrary: acc rule: list_all2_induct)
  case Nil
  then show ?case by (simp add: io_ret_def)
next
  case (Cons c comps r rs)
  obtain out where c: "printPotTypeArg g (type_name g c) None c (off + 4) long = (out, Inr r)"
    using Cons.hyps(1) by (cases "printPotTypeArg g (type_name g c) None c (off + 4) long") simp
  obtain out' where l: "printPotTypeArg_loop g comps off long (accumulate acc r)
      = (out', Inr (foldl accumulate (accumulate acc r) rs))"
    using Cons.IH [of "accumulate acc r"]
    by (cases "printPotTypeArg_loop g comps off long (accumulate acc r)") simp
  from c l show ?case by (simp add: io_bind_Inr)
qed

lemma foldl_accumulate_nonempty:
  assumes "e \<noteq> []"
  shows "foldl accumulate (e, n, ts, as) rs =
     (e @ concat (map (\<lambda>r. ''|'' @ fst r) rs),
      n + sum_list (map (fst \<circ> snd) rs),
      ts @ concat (map (fst \<circ> snd \<circ> snd) rs),
      as @ concat (map (snd \<circ> snd \<circ> snd) rs))"
  using assms
proof (induction rs arbitrary: e n ts as)
  case Nil
  then show ?case by simp
next
  case (Cons r rs)
  obtain e' n' ts' as' where r: "r = (e', n', ts', as')" by (cases r) auto
  from Cons.prems have "e @ ''|'' @ e' \<noteq> []" by simp
  from Cons.IH [OF this] Cons.prems r show ?case
    by (simp add: accumulate_def add.assoc)
qed

lemma join_pipe_Cons: "join ''|'' (x # xs) = x @ concat (map (\<lambda>s. ''|'' @ s) xs)"
  by (induction xs arbitrary: x) simp_all

lemma foldl_accumulate_join:
  assumes "rs = [] \<or> fst (hd rs) \<noteq> []"
  shows "foldl accumulate ([], 0, [], []) rs =
     (join ''|'' (map fst rs),
      sum_list (map (fst \<circ> snd) rs),
      concat (map (fst \<circ> snd \<circ> snd) rs),
      concat (map (snd \<circ> snd \<circ> snd) rs))"
proof (cases rs)
  case Nil
  then show ?thesis by simp
next
  case (Cons r rs')
  obtain e n ts as where r: "r = (e, n, ts, as)" by (cases r) auto
  with assms Cons have "e \<noteq> []" by simp
  from foldl_accumulate_nonempty [OF this, of n ts as rs'] Cons r
  show ?thesis by (simp add: accumulate_def join_pipe_Cons comp_def del: join.simps)
qed

lemma printPotTypeArg_list_returns:
  assumes "snd (printPotTypeArg_loop g comps off long ([], 0, [], [])) = Inr r"
  shows "snd (printPotTypeArg g pot_name None (PyList comps) off long) = Inr r"
  using assms
  by (cases "printPotTypeArg_loop g comps off long ([], 0, [], [])")
     (auto simp: py_print_def io_then_Inr io_bind_Inr io_ret_def split: prod.splits)

text \<open>
  Claim C1. For a potential instance that is a list of component instances (with the
  module argument \<^verbatim>\<open>None\<close>, as the docstring asks for lists), the encoding returned by
  \<^verbatim>\<open>printPotTypeArg\<close> is the encodings of the components, computed by the recursive
  calls in the order of the list, joined with \<open>|\<close>; the returned count is the sum of
  the components' counts, and the type list and the argument list are the components'
  lists one after the other. \<open>rs\<close> are the results of the recursive calls. A component
  is an instance, or a nested list whose encoding is not empty.
\<close>

theorem printPotTypeArg_combination:
  assumes "list_all2
             (\<lambda>c r. ((\<exists>i. c = Inst i) \<or> fst r \<noteq> [])
                    \<and> snd (printPotTypeArg g (type_name g c) None c (off + 4) long) = Inr r)
             comps rs"
  shows "snd (printPotTypeArg g pot_name None (PyList comps) off long) =
           Inr (join ''|'' (map fst rs),
                sum_list (map (fst \<circ> snd) rs),
                concat (map (fst \<circ> snd \<circ> snd) rs),
                concat (map (snd \<circ> snd \<circ> snd) rs))"
proof -
  from assms have ne: "list_all2 (\<lambda>c r. fst r \<noteq> []) comps rs"
    by (rule list_all2_mono) (auto dest: printPotTypeArg_Inst_nonempty)
  have hd: "rs = [] \<or> fst (hd rs) \<noteq> []"
  proof (cases rs)
    case Nil
    then show ?thesis by simp
  next
    case (Cons r rs')
    with ne show ?thesis by (auto simp: list_all2_Cons2)
  qed
  from assms
  have "list_all2 (\<lambda>c r. snd (printPotTypeArg g (type_name g c) None c (off + 4) long) = Inr r) comps rs"
    by (rule list_all2_mono) simp
  from printPotTypeArg_loop_returns [OF this, of "([], 0, [], [])"]
  have "snd (printPotTypeArg_loop g comps off long ([], 0, [], [])) = Inr (foldl accumulate ([], 0, [], []) rs)" .
  from printPotTypeArg_list_returns [OF this, of pot_name] foldl_accumulate_join [OF hd]
  show ?thesis by simp
qed

lemma str_int_demo:
  "str_int 15 = ''15''" "str_int 5 = ''5''" "str_int 9 = ''9''" "str_int 13 = ''13''"
  "str_int 24 = ''24''" "str_int 7 = ''7''" "str_int 3 = ''3''" "str_int 2 = ''2''"
  "str_int 0 = ''0''"
  by (simp_all add: str_int_def digits.simps digit_char_def)

lemma demo_fields:
  "parse_pot demo = demo_parse" "str_float demo = (\<lambda>s. s)" "fmt14g demo = (\<lambda>s. s)"
  "type_name demo (Inst n) = n"
  by (simp_all add: demo_def)

theorem printPotTypeArg_combination_witness:
  "snd (printPotTypeArg demo ''PowerSphericalPotentialwCutoff'' None
          (Inst ''PowerSphericalPotentialwCutoff'') 4 False)
     = Inr (''15:0.029994597188218,1.8,0.2375'', 1, [15], [''0.029994597188218'', ''1.8'', ''0.2375''])
   \<and> snd (printPotTypeArg demo ''MiyamotoNagaiPotential'' None (Inst ''MiyamotoNagaiPotential'') 4 False)
     = Inr (''5:0.75748020193716,0.375,0.035'', 1, [5], [''0.75748020193716'', ''0.375'', ''0.035''])
   \<and> snd (printPotTypeArg demo ''NFWPotential'' None (Inst ''NFWPotential'') 4 False)
     = Inr (''9:4.852230533528,2.0'', 1, [9], [''4.852230533528'', ''2.0''])
   \<and> snd (printPotTypeArg demo ''MWPotential2014'' None
            (PyList [Inst ''PowerSphericalPotentialwCutoff'', Inst ''MiyamotoNagaiPotential'',
                     Inst ''NFWPotential'']) 0 False)
     = Inr (''15:0.029994597188218,1.8,0.2375|5:0.75748020193716,0.375,0.035|9:4.852230533528,2.0'',
            3, [15, 5, 9],
            [''0.029994597188218'', ''1.8'', ''0.2375'', ''0.75748020193716'', ''0.375'', ''0.035'',
             ''4.852230533528'', ''2.0''])"
proof -
  have p: "snd (printPotTypeArg demo ''PowerSphericalPotentialwCutoff'' None
          (Inst ''PowerSphericalPotentialwCutoff'') 4 False)
     = Inr (''15:0.029994597188218,1.8,0.2375'', 1, [15], [''0.029994597188218'', ''1.8'', ''0.2375''])"
    by (simp add: print_parsed_ok [of demo _ 1 "[15]" "[''0.029994597188218'', ''1.8'', ''0.2375'']"]
        demo_fields demo_parse_def type_arg_format_def str_int_demo)
  have m: "snd (printPotTypeArg demo ''MiyamotoNagaiPotential'' None (Inst ''MiyamotoNagaiPotential'') 4 False)
     = Inr (''5:0.75748020193716,0.375,0.035'', 1, [5], [''0.75748020193716'', ''0.375'', ''0.035''])"
    by (simp add: print_parsed_ok [of demo _ 1 "[5]" "[''0.75748020193716'', ''0.375'', ''0.035'']"]
        demo_fields demo_parse_def type_arg_format_def str_int_demo)
  have n: "snd (printPotTypeArg demo ''NFWPotential'' None (Inst ''NFWPotential'') 4 False)
     = Inr (''9:4.852230533528,2.0'', 1, [9], [''4.852230533528'', ''2.0''])"
    by (simp add: print_parsed_ok [of demo _ 1 "[9]" "[''4.852230533528'', ''2.0'']"]
        demo_fields demo_parse_def type_arg_format_def str_int_demo)
  have h: "list_all2
             (\<lambda>c r. ((\<exists>i. c = Inst i) \<or> fst r \<noteq> [])
                    \<and> snd (printPotTypeArg demo (type_name demo c) None c (0 + 4) False) = Inr r)
             [Inst ''PowerSphericalPotentialwCutoff'', Inst ''MiyamotoNagaiPotential'', Inst ''NFWPotential'']
             [(''15:0.029994597188218,1.8,0.2375'', 1, [15], [''0.029994597188218'', ''1.8'', ''0.2375'']),
              (''5:0.75748020193716,0.375,0.035'', 1, [5], [''0.75748020193716'', ''0.375'', ''0.035'']),
              (''9:4.852230533528,2.0'', 1, [9], [''4.852230533528'', ''2.0''])]"
    using p m n by (simp add: demo_fields)
  from printPotTypeArg_combination [OF h, of "''MWPotential2014''"]
  have "snd (printPotTypeArg demo ''MWPotential2014'' None
            (PyList [Inst ''PowerSphericalPotentialwCutoff'', Inst ''MiyamotoNagaiPotential'',
                     Inst ''NFWPotential'']) 0 False)
     = Inr (''15:0.029994597188218,1.8,0.2375|5:0.75748020193716,0.375,0.035|9:4.852230533528,2.0'',
            3, [15, 5, 9],
            [''0.029994597188218'', ''1.8'', ''0.2375'', ''0.75748020193716'', ''0.375'', ''0.035'',
             ''4.852230533528'', ''2.0''])"
    by simp
  with p m n show ?thesis by blast
qed

section \<open>The configuration file\<close>
















section \<open>The options\<close>









section \<open>An unknown potential name\<close>













section \<open>The option -l\<close>







end
